theory Spec2Isabelle
  imports Main "HOL-Library.Sublist"
begin

section \<open>The numeric constants of libretro.h\<close>

text \<open>
  The header defines its constants with \<^verbatim>\<open>#define NAME value\<close> lines, grouped under
  one comment per category. Each category is embedded as the list of its
  (name, value) pairs, in the order of the lines of the header.
\<close>

type_synonym cdefine = "string \<times> nat"

text \<open>\<^verbatim>\<open>/* Device types */\<close>\<close>

definition device_types :: "cdefine list" where
  "device_types =
    [(''RETRO_DEVICE_NONE'', 0),
     (''RETRO_DEVICE_JOYPAD'', 1),
     (''RETRO_DEVICE_MOUSE'', 2),
     (''RETRO_DEVICE_KEYBOARD'', 3),
     (''RETRO_DEVICE_LIGHTGUN'', 4),
     (''RETRO_DEVICE_ANALOG'', 5),
     (''RETRO_DEVICE_POINTER'', 6)]"

text \<open>\<^verbatim>\<open>/* Joypad buttons */\<close>\<close>

definition joypad_buttons :: "cdefine list" where
  "joypad_buttons =
    [(''RETRO_DEVICE_ID_JOYPAD_B'', 0),
     (''RETRO_DEVICE_ID_JOYPAD_Y'', 1),
     (''RETRO_DEVICE_ID_JOYPAD_SELECT'', 2),
     (''RETRO_DEVICE_ID_JOYPAD_START'', 3),
     (''RETRO_DEVICE_ID_JOYPAD_UP'', 4),
     (''RETRO_DEVICE_ID_JOYPAD_DOWN'', 5),
     (''RETRO_DEVICE_ID_JOYPAD_LEFT'', 6),
     (''RETRO_DEVICE_ID_JOYPAD_RIGHT'', 7),
     (''RETRO_DEVICE_ID_JOYPAD_A'', 8),
     (''RETRO_DEVICE_ID_JOYPAD_X'', 9),
     (''RETRO_DEVICE_ID_JOYPAD_L'', 10),
     (''RETRO_DEVICE_ID_JOYPAD_R'', 11),
     (''RETRO_DEVICE_ID_JOYPAD_L2'', 12),
     (''RETRO_DEVICE_ID_JOYPAD_R2'', 13),
     (''RETRO_DEVICE_ID_JOYPAD_L3'', 14),
     (''RETRO_DEVICE_ID_JOYPAD_R3'', 15),
     (''RETRO_DEVICE_ID_JOYPAD_MASK'', 256)]"

text \<open>\<^verbatim>\<open>/* Environment commands */\<close>: the header writes 22 before 21.\<close>

definition environment_commands :: "cdefine list" where
  "environment_commands =
    [(''RETRO_ENVIRONMENT_SET_ROTATION'', 1),
     (''RETRO_ENVIRONMENT_GET_OVERSCAN'', 2),
     (''RETRO_ENVIRONMENT_GET_CAN_DUPE'', 3),
     (''RETRO_ENVIRONMENT_SET_MESSAGE'', 6),
     (''RETRO_ENVIRONMENT_SHUTDOWN'', 7),
     (''RETRO_ENVIRONMENT_SET_PERFORMANCE_LEVEL'', 8),
     (''RETRO_ENVIRONMENT_GET_SYSTEM_DIRECTORY'', 9),
     (''RETRO_ENVIRONMENT_SET_PIXEL_FORMAT'', 10),
     (''RETRO_ENVIRONMENT_SET_INPUT_DESCRIPTORS'', 11),
     (''RETRO_ENVIRONMENT_SET_KEYBOARD_CALLBACK'', 12),
     (''RETRO_ENVIRONMENT_SET_DISK_CONTROL_INTERFACE'', 13),
     (''RETRO_ENVIRONMENT_SET_HW_RENDER'', 14),
     (''RETRO_ENVIRONMENT_GET_VARIABLE'', 15),
     (''RETRO_ENVIRONMENT_SET_VARIABLES'', 16),
     (''RETRO_ENVIRONMENT_GET_VARIABLE_UPDATE'', 17),
     (''RETRO_ENVIRONMENT_SET_SUPPORT_NO_GAME'', 18),
     (''RETRO_ENVIRONMENT_GET_LIBRETRO_PATH'', 19),
     (''RETRO_ENVIRONMENT_SET_AUDIO_CALLBACK'', 22),
     (''RETRO_ENVIRONMENT_SET_FRAME_TIME_CALLBACK'', 21),
     (''RETRO_ENVIRONMENT_GET_RUMBLE_INTERFACE'', 23),
     (''RETRO_ENVIRONMENT_GET_INPUT_DEVICE_CAPABILITIES'', 24),
     (''RETRO_ENVIRONMENT_GET_LOG_INTERFACE'', 27),
     (''RETRO_ENVIRONMENT_GET_PERF_INTERFACE'', 28),
     (''RETRO_ENVIRONMENT_GET_LOCATION_INTERFACE'', 29),
     (''RETRO_ENVIRONMENT_GET_CORE_ASSETS_DIRECTORY'', 30),
     (''RETRO_ENVIRONMENT_GET_SAVE_DIRECTORY'', 31),
     (''RETRO_ENVIRONMENT_SET_SYSTEM_AV_INFO'', 32),
     (''RETRO_ENVIRONMENT_SET_PROC_ADDRESS_CALLBACK'', 33),
     (''RETRO_ENVIRONMENT_SET_SUBSYSTEM_INFO'', 34),
     (''RETRO_ENVIRONMENT_SET_CONTROLLER_INFO'', 35),
     (''RETRO_ENVIRONMENT_SET_MEMORY_MAPS'', 36),
     (''RETRO_ENVIRONMENT_SET_GEOMETRY'', 37),
     (''RETRO_ENVIRONMENT_GET_USERNAME'', 38),
     (''RETRO_ENVIRONMENT_GET_LANGUAGE'', 39),
     (''RETRO_ENVIRONMENT_GET_CURRENT_SOFTWARE_FRAMEBUFFER'', 40),
     (''RETRO_ENVIRONMENT_GET_HW_RENDER_INTERFACE'', 41),
     (''RETRO_ENVIRONMENT_SET_SUPPORT_ACHIEVEMENTS'', 42),
     (''RETRO_ENVIRONMENT_SET_HW_RENDER_CONTEXT_NEGOTIATION_INTERFACE'', 43),
     (''RETRO_ENVIRONMENT_SET_SERIALIZATION_QUIRKS'', 44),
     (''RETRO_ENVIRONMENT_GET_VFS_INTERFACE'', 45),
     (''RETRO_ENVIRONMENT_GET_LED_INTERFACE'', 46),
     (''RETRO_ENVIRONMENT_GET_AUDIO_VIDEO_ENABLE'', 47),
     (''RETRO_ENVIRONMENT_GET_MIDI_INTERFACE'', 48),
     (''RETRO_ENVIRONMENT_GET_FASTFORWARDING'', 49),
     (''RETRO_ENVIRONMENT_GET_TARGET_REFRESH_RATE'', 50),
     (''RETRO_ENVIRONMENT_GET_INPUT_BITMASKS'', 51),
     (''RETRO_ENVIRONMENT_GET_CORE_OPTIONS_VERSION'', 52),
     (''RETRO_ENVIRONMENT_SET_CORE_OPTIONS'', 53),
     (''RETRO_ENVIRONMENT_SET_CORE_OPTIONS_INTL'', 54),
     (''RETRO_ENVIRONMENT_SET_CORE_OPTIONS_DISPLAY'', 55),
     (''RETRO_ENVIRONMENT_GET_PREFERRED_HW_RENDER'', 56),
     (''RETRO_ENVIRONMENT_GET_DISK_CONTROL_INTERFACE_VERSION'', 57),
     (''RETRO_ENVIRONMENT_SET_DISK_CONTROL_EXT_INTERFACE'', 58),
     (''RETRO_ENVIRONMENT_GET_MESSAGE_INTERFACE_VERSION'', 59),
     (''RETRO_ENVIRONMENT_SET_MESSAGE_EXT'', 60),
     (''RETRO_ENVIRONMENT_GET_INPUT_MAX_USERS'', 61),
     (''RETRO_ENVIRONMENT_SET_AUDIO_BUFFER_STATUS_CALLBACK'', 62),
     (''RETRO_ENVIRONMENT_SET_MINIMUM_AUDIO_LATENCY'', 63),
     (''RETRO_ENVIRONMENT_SET_FASTFORWARDING_OVERRIDE'', 64),
     (''RETRO_ENVIRONMENT_SET_CONTENT_INFO_OVERRIDE'', 65),
     (''RETRO_ENVIRONMENT_GET_GAME_INFO_EXT'', 66),
     (''RETRO_ENVIRONMENT_SET_CORE_OPTIONS_V2'', 67),
     (''RETRO_ENVIRONMENT_SET_CORE_OPTIONS_V2_INTL'', 68),
     (''RETRO_ENVIRONMENT_SET_CORE_OPTIONS_UPDATE_DISPLAY_CALLBACK'', 69),
     (''RETRO_ENVIRONMENT_SET_VARIABLE'', 70),
     (''RETRO_ENVIRONMENT_GET_THROTTLE_STATE'', 71)]"

text \<open>\<^verbatim>\<open>/* Memory types */\<close>\<close>

definition memory_types :: "cdefine list" where
  "memory_types =
    [(''RETRO_MEMORY_SAVE_RAM'', 0),
     (''RETRO_MEMORY_RTC'', 1),
     (''RETRO_MEMORY_SYSTEM_RAM'', 2),
     (''RETRO_MEMORY_VIDEO_RAM'', 3)]"

text \<open>\<^verbatim>\<open>/* Region */\<close>\<close>

definition region :: "cdefine list" where
  "region =
    [(''RETRO_REGION_NTSC'', 0),
     (''RETRO_REGION_PAL'', 1)]"

text \<open>
  What a use of a macro name evaluates to: the value of its \<^verbatim>\<open>#define\<close> line,
  and nothing for a name the category does not define.
\<close>

definition macro_value :: "cdefine list \<Rightarrow> string \<Rightarrow> nat option" where
  "macro_value defs name = map_of defs name"

definition names_of :: "cdefine list \<Rightarrow> string list" where
  "names_of defs = map fst defs"

definition values_of :: "cdefine list \<Rightarrow> nat list" where
  "values_of defs = map snd defs"


section \<open>The declarations of libretro.h and static_cores.h\<close>

text \<open>
  The C types the two headers write in their prototypes and in
  \<^verbatim>\<open>struct retro_game_info\<close>. \<open>C_Bool\<close> is the keyword \<^verbatim>\<open>_Bool\<close> of libretro.h;
  \<open>Cbool\<close> is the word \<^verbatim>\<open>bool\<close> of static_cores.h, which includes
  \<^verbatim>\<open><stdbool.h>\<close> for it. A name introduced by \<^verbatim>\<open>typedef\<close> stays a name.
\<close>

datatype ctype =
    CVoid
  | C_Bool
  | Cbool
  | CUnsigned
  | CSize_t
  | CChar
  | CInt16_t
  | CStruct string
  | CTypedef string
  | CConst ctype
  | CPtr ctype

text \<open>
  A prototype is a return type, a name and the parameter list; a parameter is a
  type and the name the header gives it, if any. \<^verbatim>\<open>(void)\<close> is the empty list.
\<close>

type_synonym cparam = "ctype \<times> string option"

datatype prototype = Prototype (ret: ctype) (fname: string) (params: "cparam list")

text \<open>
  \<^verbatim>\<open>/* Core API functions */\<close>: the prototypes of libretro.h, in the order of
  the header.
\<close>

definition core_api_functions :: "prototype list" where
  "core_api_functions =
    [Prototype CVoid ''retro_set_environment'' [(CTypedef ''retro_environment_t'', None)],
     Prototype CVoid ''retro_set_video_refresh'' [(CTypedef ''retro_video_refresh_t'', None)],
     Prototype CVoid ''retro_set_audio_sample'' [(CTypedef ''retro_audio_sample_t'', None)],
     Prototype CVoid ''retro_set_audio_sample_batch''
       [(CTypedef ''retro_audio_sample_batch_t'', None)],
     Prototype CVoid ''retro_set_input_poll'' [(CTypedef ''retro_input_poll_t'', None)],
     Prototype CVoid ''retro_set_input_state'' [(CTypedef ''retro_input_state_t'', None)],
     Prototype CVoid ''retro_init'' [],
     Prototype CVoid ''retro_deinit'' [],
     Prototype CUnsigned ''retro_api_version'' [],
     Prototype CVoid ''retro_get_system_info''
       [(CPtr (CStruct ''retro_system_info''), Some ''info'')],
     Prototype CVoid ''retro_get_system_av_info''
       [(CPtr (CStruct ''retro_system_av_info''), Some ''info'')],
     Prototype CVoid ''retro_set_controller_port_device''
       [(CUnsigned, Some ''port''), (CUnsigned, Some ''device'')],
     Prototype CVoid ''retro_reset'' [],
     Prototype CVoid ''retro_run'' [],
     Prototype CSize_t ''retro_serialize_size'' [],
     Prototype C_Bool ''retro_serialize''
       [(CPtr CVoid, Some ''data''), (CSize_t, Some ''size'')],
     Prototype C_Bool ''retro_unserialize''
       [(CPtr (CConst CVoid), Some ''data''), (CSize_t, Some ''size'')],
     Prototype CVoid ''retro_cheat_reset'' [],
     Prototype CVoid ''retro_cheat_set''
       [(CUnsigned, Some ''index''), (C_Bool, Some ''enabled''),
        (CPtr (CConst CChar), Some ''code'')],
     Prototype C_Bool ''retro_load_game''
       [(CPtr (CConst (CStruct ''retro_game_info'')), Some ''game'')],
     Prototype C_Bool ''retro_load_game_special''
       [(CUnsigned, Some ''game_type''),
        (CPtr (CConst (CStruct ''retro_game_info'')), Some ''info''),
        (CSize_t, Some ''num_info'')],
     Prototype CVoid ''retro_unload_game'' [],
     Prototype CUnsigned ''retro_get_region'' [],
     Prototype (CPtr CVoid) ''retro_get_memory_data'' [(CUnsigned, Some ''id'')],
     Prototype CSize_t ''retro_get_memory_size'' [(CUnsigned, Some ''id'')]]"

text \<open>
  The macro of static_cores.h. \<^verbatim>\<open>PREFIX##_retro_init\<close> pastes the argument in
  front of \<^verbatim>\<open>_retro_init\<close>; the prototypes are in the order of the macro's lines,
  which is not the order of libretro.h.
\<close>

definition DECLARE_LIBRETRO_CORE :: "string \<Rightarrow> prototype list" where
  "DECLARE_LIBRETRO_CORE PREFIX =
    [Prototype CVoid (PREFIX @ ''_retro_init'') [],
     Prototype CVoid (PREFIX @ ''_retro_deinit'') [],
     Prototype CUnsigned (PREFIX @ ''_retro_api_version'') [],
     Prototype CVoid (PREFIX @ ''_retro_get_system_info'')
       [(CPtr (CStruct ''retro_system_info''), Some ''info'')],
     Prototype CVoid (PREFIX @ ''_retro_get_system_av_info'')
       [(CPtr (CStruct ''retro_system_av_info''), Some ''info'')],
     Prototype CVoid (PREFIX @ ''_retro_set_environment'')
       [(CTypedef ''retro_environment_t'', None)],
     Prototype CVoid (PREFIX @ ''_retro_set_video_refresh'')
       [(CTypedef ''retro_video_refresh_t'', None)],
     Prototype CVoid (PREFIX @ ''_retro_set_audio_sample'')
       [(CTypedef ''retro_audio_sample_t'', None)],
     Prototype CVoid (PREFIX @ ''_retro_set_audio_sample_batch'')
       [(CTypedef ''retro_audio_sample_batch_t'', None)],
     Prototype CVoid (PREFIX @ ''_retro_set_input_poll'')
       [(CTypedef ''retro_input_poll_t'', None)],
     Prototype CVoid (PREFIX @ ''_retro_set_input_state'')
       [(CTypedef ''retro_input_state_t'', None)],
     Prototype CVoid (PREFIX @ ''_retro_reset'') [],
     Prototype CVoid (PREFIX @ ''_retro_run'') [],
     Prototype Cbool (PREFIX @ ''_retro_load_game'')
       [(CPtr (CConst (CStruct ''retro_game_info'')), Some ''game'')],
     Prototype Cbool (PREFIX @ ''_retro_load_game_special'')
       [(CUnsigned, Some ''game_type''),
        (CPtr (CConst (CStruct ''retro_game_info'')), Some ''info''),
        (CSize_t, Some ''num_info'')],
     Prototype CVoid (PREFIX @ ''_retro_unload_game'') [],
     Prototype CSize_t (PREFIX @ ''_retro_serialize_size'') [],
     Prototype Cbool (PREFIX @ ''_retro_serialize'')
       [(CPtr CVoid, Some ''data''), (CSize_t, Some ''size'')],
     Prototype Cbool (PREFIX @ ''_retro_unserialize'')
       [(CPtr (CConst CVoid), Some ''data''), (CSize_t, Some ''size'')],
     Prototype (CPtr CVoid) (PREFIX @ ''_retro_get_memory_data'') [(CUnsigned, Some ''id'')],
     Prototype CSize_t (PREFIX @ ''_retro_get_memory_size'') [(CUnsigned, Some ''id'')],
     Prototype CUnsigned (PREFIX @ ''_retro_get_region'') [],
     Prototype CVoid (PREFIX @ ''_retro_cheat_reset'') [],
     Prototype CVoid (PREFIX @ ''_retro_cheat_set'')
       [(CUnsigned, Some ''index''), (Cbool, Some ''enabled''),
        (CPtr (CConst CChar), Some ''code'')],
     Prototype CVoid (PREFIX @ ''_retro_set_controller_port_device'')
       [(CUnsigned, Some ''port''), (CUnsigned, Some ''device'')]]"

text \<open>
  \<^verbatim>\<open>// MARK: - Core Declarations\<close>: the arguments of the uses of
  \<^verbatim>\<open>DECLARE_LIBRETRO_CORE\<close> in static_cores.h, in the order of the file, and the
  prototypes the header declares through them.
\<close>

definition core_declarations :: "string list" where
  "core_declarations =
    [''fceumm'', ''gambatte'', ''mgba'', ''clownmdemu'', ''melonds'',
     ''mupen64plus_next'', ''pcsx_rearmed'', ''bsnes'']"

definition static_cores_h :: "prototype list" where
  "static_cores_h = concat (map DECLARE_LIBRETRO_CORE core_declarations)"

text \<open>
  \<^verbatim>\<open><stdbool.h>\<close> defines \<^verbatim>\<open>bool\<close> as a macro for \<^verbatim>\<open>_Bool\<close>; \<open>stdbool\<close> expands
  it inside a type. The signature of a prototype is its return type and its
  parameter types after that expansion; parameter names are not part of it.
\<close>

fun stdbool :: "ctype \<Rightarrow> ctype" where
  "stdbool Cbool = C_Bool"
| "stdbool (CConst t) = CConst (stdbool t)"
| "stdbool (CPtr t) = CPtr (stdbool t)"
| "stdbool t = t"

definition signature :: "prototype \<Rightarrow> ctype \<times> ctype list" where
  "signature d = (stdbool (ret d), map (stdbool \<circ> fst) (params d))"

text \<open>
  The name under which a core with a given prefix exports a function of the base
  API, and the prototypes of static_cores.h that carry that name.
\<close>

definition prefixed :: "string \<Rightarrow> string \<Rightarrow> string" where
  "prefixed PREFIX f = PREFIX @ ''_'' @ f"

definition counterparts :: "string \<Rightarrow> prototype \<Rightarrow> prototype list" where
  "counterparts PREFIX f = filter (\<lambda>d. fname d = prefixed PREFIX (fname f)) static_cores_h"

text \<open>
  The names the macro pastes its argument onto.
\<close>

definition macro_names :: "string list" where
  "macro_names = map fname (DECLARE_LIBRETRO_CORE [])"


section \<open>\<^verbatim>\<open>struct retro_game_info\<close> and its layout in memory\<close>

text \<open>
  The struct as libretro.h declares it: the fields in order, each with its type.
\<close>

type_synonym cfield = "string \<times> ctype"

definition retro_game_info :: "cfield list" where
  "retro_game_info =
    [(''path'', CPtr (CConst CChar)),
     (''data'', CPtr (CConst CVoid)),
     (''size'', CSize_t),
     (''meta'', CPtr (CConst CChar))]"

text \<open>
  A type without its \<^verbatim>\<open>const\<close> qualifiers.
\<close>

fun unqualified :: "ctype \<Rightarrow> ctype" where
  "unqualified (CConst t) = unqualified t"
| "unqualified (CPtr t) = CPtr (unqualified t)"
| "unqualified t = t"

text \<open>
  The header fixes no widths for pointers and \<^verbatim>\<open>size_t\<close>; the platform's data
  model does. The layout below is the rule C compilers apply to a struct of
  scalars: every field at the next offset that is a multiple of its size, in the
  order of declaration. A field whose type has no size here (\<^verbatim>\<open>void\<close>, a struct or
  a typedef name) gives no layout.
\<close>

datatype data_model = ILP32 | LP64

fun pointer_bytes :: "data_model \<Rightarrow> nat" where
  "pointer_bytes ILP32 = 4"
| "pointer_bytes LP64 = 8"

fun sizeof :: "data_model \<Rightarrow> ctype \<Rightarrow> nat option" where
  "sizeof dm (CPtr t) = Some (pointer_bytes dm)"
| "sizeof dm CSize_t = Some (pointer_bytes dm)"
| "sizeof dm CUnsigned = Some 4"
| "sizeof dm CInt16_t = Some 2"
| "sizeof dm CChar = Some 1"
| "sizeof dm C_Bool = Some 1"
| "sizeof dm Cbool = Some 1"
| "sizeof dm (CConst t) = sizeof dm t"
| "sizeof dm CVoid = None"
| "sizeof dm (CStruct s) = None"
| "sizeof dm (CTypedef s) = None"

definition align_up :: "nat \<Rightarrow> nat \<Rightarrow> nat" where
  "align_up off a = ((off + a - 1) div a) * a"

type_synonym slot = "string \<times> nat \<times> nat"

fun struct_layout :: "data_model \<Rightarrow> nat \<Rightarrow> cfield list \<Rightarrow> slot list option" where
  "struct_layout dm off [] = Some []"
| "struct_layout dm off ((n, t) # fs) =
     (case sizeof dm t of
        None \<Rightarrow> None
      | Some sz \<Rightarrow>
          (case struct_layout dm (align_up off sz + sz) fs of
             None \<Rightarrow> None
           | Some slots \<Rightarrow> Some ((n, align_up off sz, sz) # slots)))"

fun struct_bytes :: "slot list \<Rightarrow> nat" where
  "struct_bytes [] = 0"
| "struct_bytes ((n, off, sz) # slots) = max (off + sz) (struct_bytes slots)"

text \<open>
  A value of the struct gives every field name an unsigned number (an address or
  a size). Writing it to memory stores each field's bytes, least significant
  first, at the field's offset; reading it back loads the same bytes. Bytes are
  numbers below 256.
\<close>

fun le_bytes :: "nat \<Rightarrow> nat \<Rightarrow> nat list" where
  "le_bytes 0 v = []"
| "le_bytes (Suc k) v = (v mod 256) # le_bytes k (v div 256)"

fun le_value :: "nat list \<Rightarrow> nat" where
  "le_value [] = 0"
| "le_value (b # bs) = b + 256 * le_value bs"

definition store_bytes :: "nat \<Rightarrow> nat list \<Rightarrow> nat list \<Rightarrow> nat list" where
  "store_bytes off bs mem = take off mem @ bs @ drop (off + length bs) mem"

definition load_bytes :: "nat \<Rightarrow> nat \<Rightarrow> nat list \<Rightarrow> nat list" where
  "load_bytes off sz mem = take sz (drop off mem)"

fun write_struct :: "slot list \<Rightarrow> (string \<Rightarrow> nat) \<Rightarrow> nat list \<Rightarrow> nat list" where
  "write_struct [] v mem = mem"
| "write_struct ((n, off, sz) # slots) v mem =
     write_struct slots v (store_bytes off (le_bytes sz (v n)) mem)"

fun read_struct :: "slot list \<Rightarrow> nat list \<Rightarrow> (string \<times> nat) list" where
  "read_struct [] mem = []"
| "read_struct ((n, off, sz) # slots) mem =
     (n, le_value (load_bytes off sz mem)) # read_struct slots mem"

text \<open>
  A round trip: the value is written into a zeroed image of the struct's size and
  read back through the same layout. A value fits when every field is below
  \<open>256 ^ size\<close> of its field.
\<close>

definition round_trip :: "data_model \<Rightarrow> cfield list \<Rightarrow> (string \<Rightarrow> nat) \<Rightarrow> (string \<times> nat) list option" where
  "round_trip dm fields v =
     (case struct_layout dm 0 fields of
        None \<Rightarrow> None
      | Some slots \<Rightarrow>
          Some (read_struct slots (write_struct slots v (replicate (struct_bytes slots) 0))))"

definition fits :: "data_model \<Rightarrow> cfield list \<Rightarrow> (string \<Rightarrow> nat) \<Rightarrow> bool" where
  "fits dm fields v =
     list_all (\<lambda>(n, t). case sizeof dm t of None \<Rightarrow> False | Some sz \<Rightarrow> v n < 256 ^ sz) fields"

text \<open>
  A populated value, for evaluation: a path at address 4096, 524288 bytes of data
  at 8192, no metadata.
\<close>

definition example_game_info :: "string \<Rightarrow> nat" where
  "example_game_info n =
     (if n = ''path'' then 4096
      else if n = ''data'' then 8192
      else if n = ''size'' then 524288
      else 0)"


section \<open>Values of the constants\<close>

lemma values_of_memory_types: "values_of memory_types = [0, 1, 2, 3]"
  by (simp add: values_of_def memory_types_def)

lemma values_of_region: "values_of region = [0, 1]"
  by (simp add: values_of_def region_def)

lemma values_of_device_types: "values_of device_types = [0, 1, 2, 3, 4, 5, 6]"
  by (simp add: values_of_def device_types_def)

lemma values_of_joypad_buttons:
  "values_of joypad_buttons = [0, 1, 2, 3, 4, 5, 6, 7, 8, 9, 10, 11, 12, 13, 14, 15, 256]"
  by (simp add: values_of_def joypad_buttons_def)

lemma values_of_environment_commands:
  "values_of environment_commands = [1..<4] @ [6..<20] @ [22, 21] @ [23..<25] @ [27..<72]"
  by (simp add: values_of_def environment_commands_def upt_rec)

text \<open>
  C4. The memory-region ids RETRO_MEMORY_SAVE_RAM, RETRO_MEMORY_RTC,
  RETRO_MEMORY_SYSTEM_RAM and RETRO_MEMORY_VIDEO_RAM are 0, 1, 2 and 3, in that
  order and with no other constant in the category; the region ids
  RETRO_REGION_NTSC and RETRO_REGION_PAL are 0 and 1.
\<close>

theorem memory_and_region_ids:
  "names_of memory_types =
     [''RETRO_MEMORY_SAVE_RAM'', ''RETRO_MEMORY_RTC'',
      ''RETRO_MEMORY_SYSTEM_RAM'', ''RETRO_MEMORY_VIDEO_RAM'']
   \<and> values_of memory_types = [0, 1, 2, 3]
   \<and> macro_value memory_types ''RETRO_MEMORY_SAVE_RAM'' = Some 0
   \<and> macro_value memory_types ''RETRO_MEMORY_RTC'' = Some 1
   \<and> macro_value memory_types ''RETRO_MEMORY_SYSTEM_RAM'' = Some 2
   \<and> macro_value memory_types ''RETRO_MEMORY_VIDEO_RAM'' = Some 3
   \<and> names_of region = [''RETRO_REGION_NTSC'', ''RETRO_REGION_PAL'']
   \<and> values_of region = [0, 1]
   \<and> macro_value region ''RETRO_REGION_NTSC'' = Some 0
   \<and> macro_value region ''RETRO_REGION_PAL'' = Some 1"
  by (simp add: names_of_def values_of_def macro_value_def memory_types_def region_def)


subsection \<open>Helper facts about the categories\<close>

lemma distinct_values_of_environment_commands: "distinct (values_of environment_commands)"
  unfolding values_of_environment_commands by auto

lemma distinct_names_of_environment_commands: "distinct (names_of environment_commands)"
  by (simp add: names_of_def environment_commands_def)

lemma set_values_of_environment_commands:
  "set (values_of environment_commands) = {1..71} - {4, 5, 20, 25, 26}"
  unfolding values_of_environment_commands by code_simp

lemma length_environment_commands: "length environment_commands = 66"
  by (simp add: environment_commands_def)


subsection \<open>Environment commands\<close>

text \<open>
  C2, as the specification states it: the environment-command ids are the integers
  1 through 71, every integer of the range being the value of some constant. The
  header defines no constant with the value 4 (nor 5, 20, 25, 26), although 4 lies
  in the range.
\<close>

theorem environment_commands_not_all_of_1_to_71:
  "(4::nat) \<in> {1..71} \<and> 4 \<notin> set (values_of environment_commands)"
  by (simp add: values_of_environment_commands)

text \<open>
  C2, amended: every RETRO_ENVIRONMENT_* constant has a value between 1 and 71
  inclusive, and every integer in that range other than 4, 5, 20, 25 and 26 is the
  value of some defined environment-command constant.
\<close>

theorem environment_commands_range:
  "(\<forall>c\<in>set environment_commands. 1 \<le> snd c \<and> snd c \<le> 71)
   \<and> (\<forall>n\<in>{1..71} - {4, 5, 20, 25, 26}.
         \<exists>c\<in>set environment_commands. snd c = n)"
proof -
  have eq: "snd ` set environment_commands = {1..71} - {4, 5, 20, 25, 26}"
    using set_values_of_environment_commands by (simp add: values_of_def)
  have "\<forall>c\<in>set environment_commands. snd c \<in> {1..71}"
    using eq by blast
  moreover have "\<forall>n\<in>{1..71} - {4, 5, 20, 25, 26}. \<exists>c\<in>set environment_commands. snd c = n"
    using eq by (metis imageE)
  ultimately show ?thesis by simp
qed

theorem environment_commands_range_witness:
  "(1::nat) \<le> snd (''RETRO_ENVIRONMENT_SET_PIXEL_FORMAT'', 10)
   \<and> snd (''RETRO_ENVIRONMENT_SET_PIXEL_FORMAT'', 10::nat) \<le> 71
   \<and> (\<exists>c\<in>set environment_commands. snd c = 10)"
proof -
  have m: "(''RETRO_ENVIRONMENT_SET_PIXEL_FORMAT'', 10) \<in> set environment_commands"
    by (simp add: environment_commands_def)
  have r: "(10::nat) \<in> {1..71} - {4, 5, 20, 25, 26}"
    by simp
  show ?thesis
    using environment_commands_range m r by blast
qed

text \<open>
  C9. The environment-command enumeration has gaps: the header defines exactly 66
  RETRO_ENVIRONMENT_* constants (66 names, 66 values), every value lies between 1
  and 71, and none of 4, 5, 20, 25, 26 is the value of a constant.
\<close>

theorem environment_commands_gaps:
  "length environment_commands = 66
   \<and> card (set (names_of environment_commands)) = 66
   \<and> card (set (values_of environment_commands)) = 66
   \<and> (\<forall>v\<in>set (values_of environment_commands). 1 \<le> v \<and> v \<le> 71)
   \<and> 4 \<notin> set (values_of environment_commands)
   \<and> 5 \<notin> set (values_of environment_commands)
   \<and> 20 \<notin> set (values_of environment_commands)
   \<and> 25 \<notin> set (values_of environment_commands)
   \<and> 26 \<notin> set (values_of environment_commands)"
proof -
  have n: "card (set (names_of environment_commands)) = 66"
    using distinct_card [OF distinct_names_of_environment_commands]
    by (simp add: names_of_def length_environment_commands)
  have v: "card (set (values_of environment_commands)) = 66"
    using distinct_card [OF distinct_values_of_environment_commands]
    by (simp add: values_of_def length_environment_commands)
  have r: "\<forall>v\<in>set (values_of environment_commands). 1 \<le> v \<and> v \<le> 71"
    unfolding set_values_of_environment_commands by simp
  have g: "4 \<notin> set (values_of environment_commands)"
    "5 \<notin> set (values_of environment_commands)"
    "20 \<notin> set (values_of environment_commands)"
    "25 \<notin> set (values_of environment_commands)"
    "26 \<notin> set (values_of environment_commands)"
    unfolding set_values_of_environment_commands by simp_all
  show ?thesis
    using length_environment_commands n v r g by simp
qed

theorem environment_commands_gaps_witness:
  "71 \<in> set (values_of environment_commands) \<and> (1::nat) \<le> 71 \<and> (71::nat) \<le> 71
   \<and> length environment_commands = 66"
proof -
  have m: "71 \<in> set (values_of environment_commands)"
    by (simp add: values_of_environment_commands)
  show ?thesis
    using environment_commands_gaps m by simp
qed


subsection \<open>Uniqueness within a category\<close>

text \<open>
  C3. Numeric constants are unique within their category: no two
  RETRO_ENVIRONMENT_* constants share a value, no two RETRO_DEVICE_ID_JOYPAD_*
  constants share a value, and likewise for the device ids (RETRO_DEVICE_NONE to
  RETRO_DEVICE_POINTER), the memory-region ids and the region ids. Each category
  also defines each of its names once, so two entries of a category are two
  constants.
\<close>

theorem constants_unique_within_category:
  "distinct (values_of environment_commands) \<and> distinct (names_of environment_commands)
   \<and> distinct (values_of joypad_buttons) \<and> distinct (names_of joypad_buttons)
   \<and> distinct (values_of device_types) \<and> distinct (names_of device_types)
   \<and> distinct (values_of memory_types) \<and> distinct (names_of memory_types)
   \<and> distinct (values_of region) \<and> distinct (names_of region)"
proof -
  have "distinct (values_of joypad_buttons) \<and> distinct (names_of joypad_buttons)"
    by (simp add: values_of_joypad_buttons) (simp add: names_of_def joypad_buttons_def)
  moreover have "distinct (values_of device_types) \<and> distinct (names_of device_types)"
    by (simp add: values_of_device_types) (simp add: names_of_def device_types_def)
  moreover have "distinct (values_of memory_types) \<and> distinct (names_of memory_types)"
    by (simp add: values_of_memory_types) (simp add: names_of_def memory_types_def)
  moreover have "distinct (values_of region) \<and> distinct (names_of region)"
    by (simp add: values_of_region) (simp add: names_of_def region_def)
  ultimately show ?thesis
    using distinct_values_of_environment_commands distinct_names_of_environment_commands
    by simp
qed


subsection \<open>Joypad buttons\<close>

text \<open>
  C10. The sixteen joypad-button ids RETRO_DEVICE_ID_JOYPAD_B to
  RETRO_DEVICE_ID_JOYPAD_R3 are, in the header's order, exactly 0 to 15;
  RETRO_DEVICE_ID_JOYPAD_MASK is 256, which is none of them; so every defined
  joypad id is below 16 or equal to 256.
\<close>

theorem joypad_ids_contiguous_and_mask:
  "names_of (take 16 joypad_buttons) =
     [''RETRO_DEVICE_ID_JOYPAD_B'', ''RETRO_DEVICE_ID_JOYPAD_Y'',
      ''RETRO_DEVICE_ID_JOYPAD_SELECT'', ''RETRO_DEVICE_ID_JOYPAD_START'',
      ''RETRO_DEVICE_ID_JOYPAD_UP'', ''RETRO_DEVICE_ID_JOYPAD_DOWN'',
      ''RETRO_DEVICE_ID_JOYPAD_LEFT'', ''RETRO_DEVICE_ID_JOYPAD_RIGHT'',
      ''RETRO_DEVICE_ID_JOYPAD_A'', ''RETRO_DEVICE_ID_JOYPAD_X'',
      ''RETRO_DEVICE_ID_JOYPAD_L'', ''RETRO_DEVICE_ID_JOYPAD_R'',
      ''RETRO_DEVICE_ID_JOYPAD_L2'', ''RETRO_DEVICE_ID_JOYPAD_R2'',
      ''RETRO_DEVICE_ID_JOYPAD_L3'', ''RETRO_DEVICE_ID_JOYPAD_R3'']
   \<and> values_of (take 16 joypad_buttons) = [0..<16]
   \<and> drop 16 joypad_buttons = [(''RETRO_DEVICE_ID_JOYPAD_MASK'', 256)]
   \<and> macro_value joypad_buttons ''RETRO_DEVICE_ID_JOYPAD_MASK'' = Some 256
   \<and> 256 \<notin> set (values_of (take 16 joypad_buttons))
   \<and> (\<forall>v\<in>set (values_of joypad_buttons). v < 16 \<or> v = 256)"
  by (simp add: names_of_def values_of_def macro_value_def joypad_buttons_def upt_rec)

theorem joypad_ids_contiguous_and_mask_witness:
  "11 \<in> set (values_of joypad_buttons) \<and> ((11::nat) < 16 \<or> (11::nat) = 256)
   \<and> 256 \<in> set (values_of joypad_buttons)
   \<and> macro_value joypad_buttons ''RETRO_DEVICE_ID_JOYPAD_R'' = Some 11"
proof -
  have m: "11 \<in> set (values_of joypad_buttons)" "256 \<in> set (values_of joypad_buttons)"
    by (simp_all add: values_of_joypad_buttons)
  have r: "macro_value joypad_buttons ''RETRO_DEVICE_ID_JOYPAD_R'' = Some 11"
    by (simp add: macro_value_def joypad_buttons_def)
  show ?thesis
    using joypad_ids_contiguous_and_mask m r by simp
qed


section \<open>The per-core declarations against the base API\<close>

lemma fname_DECLARE_LIBRETRO_CORE:
  "map fname (DECLARE_LIBRETRO_CORE p) = map (\<lambda>s. p @ s) macro_names"
  by (simp add: DECLARE_LIBRETRO_CORE_def macro_names_def)

lemma own_counterpart:
  "\<forall>f\<in>set core_api_functions.
     map signature (filter (\<lambda>d. fname d = prefixed p (fname f)) (DECLARE_LIBRETRO_CORE p))
       = [signature f]"
  by (simp add: core_api_functions_def DECLARE_LIBRETRO_CORE_def prefixed_def signature_def)

lemma foreign_counterpart:
  assumes "\<not> prefix p q" "\<not> prefix q p"
  shows "filter (\<lambda>d. fname d = prefixed p n) (DECLARE_LIBRETRO_CORE q) = []"
proof -
  have "fname d \<noteq> prefixed p n" if "d \<in> set (DECLARE_LIBRETRO_CORE q)" for d
  proof -
    from that have "fname d \<in> set (map fname (DECLARE_LIBRETRO_CORE q))" by simp
    then obtain s where "fname d = q @ s"
      unfolding fname_DECLARE_LIBRETRO_CORE by auto
    moreover have "q @ s \<noteq> p @ t" for t
      using assms by (metis prefixI prefix_same_cases)
    ultimately show ?thesis by (simp add: prefixed_def)
  qed
  then show ?thesis by (simp add: filter_empty_conv)
qed

lemma counterparts_in_own_block:
  assumes "distinct ps" "p \<in> set ps"
    and "\<forall>q\<in>set ps. q \<noteq> p \<longrightarrow> \<not> prefix p q \<and> \<not> prefix q p"
  shows "filter (\<lambda>d. fname d = prefixed p n) (concat (map DECLARE_LIBRETRO_CORE ps))
       = filter (\<lambda>d. fname d = prefixed p n) (DECLARE_LIBRETRO_CORE p)"
  using assms
proof (induction ps)
  case Nil
  then show ?case by simp
next
  case (Cons q ps)
  show ?case
  proof (cases "q = p")
    case True
    then have "p \<notin> set ps" using Cons.prems(1) by simp
    then have "\<forall>r\<in>set ps. \<not> prefix p r \<and> \<not> prefix r p"
      using Cons.prems(3) by auto
    then have "filter (\<lambda>d. fname d = prefixed p n) (concat (map DECLARE_LIBRETRO_CORE ps)) = []"
      by (induction ps) (simp_all add: foreign_counterpart)
    with True show ?thesis by simp
  next
    case False
    then have "filter (\<lambda>d. fname d = prefixed p n) (DECLARE_LIBRETRO_CORE q) = []"
      using Cons.prems(3) by (simp add: foreign_counterpart)
    moreover have "filter (\<lambda>d. fname d = prefixed p n) (concat (map DECLARE_LIBRETRO_CORE ps))
       = filter (\<lambda>d. fname d = prefixed p n) (DECLARE_LIBRETRO_CORE p)"
      using Cons False by simp
    ultimately show ?thesis by simp
  qed
qed

lemma core_declarations_distinct: "distinct core_declarations"
  by (simp add: core_declarations_def)

lemma core_declarations_incomparable:
  "\<forall>p\<in>set core_declarations. \<forall>q\<in>set core_declarations.
      q \<noteq> p \<longrightarrow> \<not> prefix p q \<and> \<not> prefix q p"
  by (simp add: core_declarations_def)

lemma macro_names_are_api_names:
  "\<forall>s\<in>set macro_names. \<exists>f\<in>set core_api_functions. s = ''_'' @ fname f"
  by (simp add: macro_names_def DECLARE_LIBRETRO_CORE_def core_api_functions_def)

lemma counterparts_of_core:
  assumes p: "p \<in> set core_declarations" and f: "f \<in> set core_api_functions"
  shows "map signature (counterparts p f) = [signature f]"
proof -
  have "counterparts p f
      = filter (\<lambda>d. fname d = prefixed p (fname f)) (DECLARE_LIBRETRO_CORE p)"
    unfolding counterparts_def static_cores_h_def
    using core_declarations_distinct p core_declarations_incomparable
    by (intro counterparts_in_own_block) auto
  then show ?thesis
    using own_counterpart f by simp
qed

lemma static_cores_h_names:
  assumes "d \<in> set static_cores_h"
  shows "\<exists>p\<in>set core_declarations. \<exists>f\<in>set core_api_functions.
           fname d = prefixed p (fname f)"
proof -
  from assms obtain p
    where p: "p \<in> set core_declarations" and d: "d \<in> set (DECLARE_LIBRETRO_CORE p)"
    by (auto simp: static_cores_h_def)
  from d have "fname d \<in> set (map fname (DECLARE_LIBRETRO_CORE p))" by simp
  then obtain s where s: "s \<in> set macro_names" and e: "fname d = p @ s"
    unfolding fname_DECLARE_LIBRETRO_CORE by auto
  from s obtain f where "f \<in> set core_api_functions" "s = ''_'' @ fname f"
    using macro_names_are_api_names by auto
  with p e show ?thesis
    by (auto simp: prefixed_def)
qed

lemma length_DECLARE_LIBRETRO_CORE: "length (DECLARE_LIBRETRO_CORE p) = 25"
  by (simp add: DECLARE_LIBRETRO_CORE_def)

lemma length_static_cores_h: "length static_cores_h = 200"
  by (simp add: static_cores_h_def core_declarations_def length_concat
      length_DECLARE_LIBRETRO_CORE comp_def)

text \<open>
  C1. The base API declares 25 functions, retro_set_environment first and
  retro_get_memory_size last. For each of them and for every core prefix
  instantiated in static_cores.h, the per-core header declares exactly one
  prototype named PREFIX_retro_..., and its return type and parameter types are
  those of the base declaration once \<^verbatim>\<open>bool\<close> is read as \<^verbatim>\<open>_Bool\<close>. Every prototype
  of the per-core header is the prefixed counterpart of a base function.
\<close>

theorem per_core_declarations_match_base_api:
  "length core_api_functions = 25
   \<and> fname (hd core_api_functions) = ''retro_set_environment''
   \<and> fname (last core_api_functions) = ''retro_get_memory_size''
   \<and> length static_cores_h = length core_declarations * length core_api_functions
   \<and> (\<forall>p\<in>set core_declarations. \<forall>f\<in>set core_api_functions.
         \<exists>d. counterparts p f = [d] \<and> signature d = signature f)
   \<and> (\<forall>d\<in>set static_cores_h.
         \<exists>p\<in>set core_declarations. \<exists>f\<in>set core_api_functions.
           fname d = prefixed p (fname f))"
proof -
  have n: "length core_api_functions = 25"
    "fname (hd core_api_functions) = ''retro_set_environment''"
    "fname (last core_api_functions) = ''retro_get_memory_size''"
    by (simp_all add: core_api_functions_def)
  have m: "length static_cores_h = length core_declarations * length core_api_functions"
    by (simp add: length_static_cores_h n(1)) (simp add: core_declarations_def)
  have one: "\<exists>d. counterparts p f = [d] \<and> signature d = signature f"
    if "p \<in> set core_declarations" "f \<in> set core_api_functions" for p f
    using counterparts_of_core [OF that] by (cases "counterparts p f") auto
  show ?thesis
    using n m one static_cores_h_names by blast
qed

theorem per_core_declarations_match_base_api_witness:
  "''mgba'' \<in> set core_declarations
   \<and> Prototype C_Bool ''retro_serialize''
        [(CPtr CVoid, Some ''data''), (CSize_t, Some ''size'')] \<in> set core_api_functions
   \<and> (\<exists>d. counterparts ''mgba'' (Prototype C_Bool ''retro_serialize''
              [(CPtr CVoid, Some ''data''), (CSize_t, Some ''size'')]) = [d]
          \<and> signature d = (C_Bool, [CPtr CVoid, CSize_t]))"
proof -
  have p: "''mgba'' \<in> set core_declarations"
    by (simp add: core_declarations_def)
  have f: "Prototype C_Bool ''retro_serialize''
        [(CPtr CVoid, Some ''data''), (CSize_t, Some ''size'')] \<in> set core_api_functions"
    by (simp add: core_api_functions_def)
  have s: "signature (Prototype C_Bool ''retro_serialize''
        [(CPtr CVoid, Some ''data''), (CSize_t, Some ''size'')]) = (C_Bool, [CPtr CVoid, CSize_t])"
    by (simp add: signature_def)
  show ?thesis
    using per_core_declarations_match_base_api p f s by metis
qed


section \<open>The statically linked cores\<close>

text \<open>
  C6. The prefixes instantiated by static_cores.h are exactly fceumm, gambatte,
  mgba, clownmdemu, melonds, mupen64plus_next, pcsx_rearmed and bsnes: each is the
  argument of exactly one use of DECLARE_LIBRETRO_CORE, no other string is the
  argument of any, and the header's prototypes are those eight expansions.
\<close>

theorem core_prefixes_exactly_eight:
  "(\<forall>p. count_list core_declarations p =
         (if p \<in> {''fceumm'', ''gambatte'', ''mgba'', ''clownmdemu'', ''melonds'',
                   ''mupen64plus_next'', ''pcsx_rearmed'', ''bsnes''} then 1 else 0))
   \<and> length core_declarations = 8
   \<and> static_cores_h =
       DECLARE_LIBRETRO_CORE ''fceumm'' @ DECLARE_LIBRETRO_CORE ''gambatte''
       @ DECLARE_LIBRETRO_CORE ''mgba'' @ DECLARE_LIBRETRO_CORE ''clownmdemu''
       @ DECLARE_LIBRETRO_CORE ''melonds'' @ DECLARE_LIBRETRO_CORE ''mupen64plus_next''
       @ DECLARE_LIBRETRO_CORE ''pcsx_rearmed'' @ DECLARE_LIBRETRO_CORE ''bsnes''"
proof -
  have "count_list core_declarations p =
         (if p \<in> {''fceumm'', ''gambatte'', ''mgba'', ''clownmdemu'', ''melonds'',
                   ''mupen64plus_next'', ''pcsx_rearmed'', ''bsnes''} then 1 else 0)" for p
    by (auto simp: core_declarations_def)
  then show ?thesis
    by (simp add: static_cores_h_def) (simp add: core_declarations_def)
qed


section \<open>The layout of \<^verbatim>\<open>struct retro_game_info\<close>\<close>

lemma length_le_bytes: "length (le_bytes k v) = k"
  by (induction k arbitrary: v) simp_all

lemma le_value_le_bytes: "le_value (le_bytes k v) = v mod 256 ^ k"
proof (induction k arbitrary: v)
  case 0
  then show ?case by simp
next
  case (Suc k)
  have "v mod 256 + 256 * (v div 256 mod 256 ^ k) = v mod (256 * 256 ^ k)"
    by (simp add: mod_mult2_eq)
  with Suc show ?case by simp
qed

lemma layout_LP64: "struct_layout LP64 0 retro_game_info =
  Some [(''path'', 0, 8), (''data'', 8, 8), (''size'', 16, 8), (''meta'', 24, 8)]"
  by (simp add: retro_game_info_def align_up_def)

lemma layout_ILP32: "struct_layout ILP32 0 retro_game_info =
  Some [(''path'', 0, 4), (''data'', 4, 4), (''size'', 8, 4), (''meta'', 12, 4)]"
  by (simp add: retro_game_info_def align_up_def)

lemma round_trip_retro_game_info:
  assumes "fits dm retro_game_info v"
  shows "round_trip dm retro_game_info v =
     Some [(''path'', v ''path''), (''data'', v ''data''),
           (''size'', v ''size''), (''meta'', v ''meta'')]"
proof (cases dm)
  case ILP32
  have f: "v ''path'' < 256 ^ 4" "v ''data'' < 256 ^ 4"
    "v ''size'' < 256 ^ 4" "v ''meta'' < 256 ^ 4"
    using assms ILP32 by (simp_all add: fits_def retro_game_info_def)
  show ?thesis
    unfolding round_trip_def ILP32 layout_ILP32
    using f
    by (simp add: store_bytes_def load_bytes_def le_value_le_bytes length_le_bytes)
next
  case LP64
  have f: "v ''path'' < 256 ^ 8" "v ''data'' < 256 ^ 8"
    "v ''size'' < 256 ^ 8" "v ''meta'' < 256 ^ 8"
    using assms LP64 by (simp_all add: fits_def retro_game_info_def)
  show ?thesis
    unfolding round_trip_def LP64 layout_LP64
    using f
    by (simp add: store_bytes_def load_bytes_def le_value_le_bytes length_le_bytes)
qed

text \<open>
  C5. \<^verbatim>\<open>struct retro_game_info\<close> has exactly four fields, in the order path (a
  pointer to char), data (a pointer to void), size (a size_t) and meta (a pointer
  to char); the pointees are const-qualified in the header. Under either data
  model the four fields lie one after the other without padding, and a populated
  value written through this layout and read back has every field unchanged.
\<close>

theorem retro_game_info_fields_round_trip:
  assumes "fits dm retro_game_info v"
  shows "length retro_game_info = 4
   \<and> map fst retro_game_info = [''path'', ''data'', ''size'', ''meta'']
   \<and> map snd retro_game_info =
        [CPtr (CConst CChar), CPtr (CConst CVoid), CSize_t, CPtr (CConst CChar)]
   \<and> map (unqualified \<circ> snd) retro_game_info = [CPtr CChar, CPtr CVoid, CSize_t, CPtr CChar]
   \<and> struct_layout dm 0 retro_game_info =
        Some [(''path'', 0, pointer_bytes dm),
              (''data'', pointer_bytes dm, pointer_bytes dm),
              (''size'', 2 * pointer_bytes dm, pointer_bytes dm),
              (''meta'', 3 * pointer_bytes dm, pointer_bytes dm)]
   \<and> round_trip dm retro_game_info v = Some (map (\<lambda>(n, t). (n, v n)) retro_game_info)"
proof -
  have d: "length retro_game_info = 4"
    "map fst retro_game_info = [''path'', ''data'', ''size'', ''meta'']"
    "map snd retro_game_info =
        [CPtr (CConst CChar), CPtr (CConst CVoid), CSize_t, CPtr (CConst CChar)]"
    "map (unqualified \<circ> snd) retro_game_info = [CPtr CChar, CPtr CVoid, CSize_t, CPtr CChar]"
    by (simp_all add: retro_game_info_def)
  have l: "struct_layout dm 0 retro_game_info =
        Some [(''path'', 0, pointer_bytes dm),
              (''data'', pointer_bytes dm, pointer_bytes dm),
              (''size'', 2 * pointer_bytes dm, pointer_bytes dm),
              (''meta'', 3 * pointer_bytes dm, pointer_bytes dm)]"
    by (cases dm) (simp_all add: layout_ILP32 layout_LP64)
  have r: "round_trip dm retro_game_info v = Some (map (\<lambda>(n, t). (n, v n)) retro_game_info)"
    using round_trip_retro_game_info [OF assms] by (simp add: retro_game_info_def)
  show ?thesis
    using d l r by simp
qed

theorem retro_game_info_fields_round_trip_witness:
  "fits LP64 retro_game_info example_game_info
   \<and> struct_layout LP64 0 retro_game_info =
        Some [(''path'', 0, 8), (''data'', 8, 8), (''size'', 16, 8), (''meta'', 24, 8)]
   \<and> round_trip LP64 retro_game_info example_game_info =
        Some [(''path'', 4096), (''data'', 8192), (''size'', 524288), (''meta'', 0)]"
proof -
  have h: "fits LP64 retro_game_info example_game_info"
    by (simp add: fits_def retro_game_info_def example_game_info_def)
  have r: "round_trip LP64 retro_game_info example_game_info =
        Some (map (\<lambda>(n, t). (n, example_game_info n)) retro_game_info)"
    using retro_game_info_fields_round_trip [OF h] by blast
  have e: "map (\<lambda>(n, t). (n, example_game_info n)) retro_game_info =
        [(''path'', 4096), (''data'', 8192), (''size'', 524288), (''meta'', 0)]"
    by (simp add: retro_game_info_def example_game_info_def)
  show ?thesis
    using h layout_LP64 r e by simp
qed

end
